theory Spec2Isabelle
  imports Main "HOL-Library.Word" "HOL-Library.AList"
begin

section \<open>Data model (backend/models.go)\<close>

text \<open>
  A \<open>time.Time\<close> is read as a count of nanoseconds on one linear clock, an
  unbounded integer. A \<open>time.Duration\<close> is Go's \<open>int64\<close> count of nanoseconds
  and Go's \<open>int\<close> is 64 bits wide on the build target, so both are 64-bit
  words read as two's complement: multiplication wraps around.
\<close>

type_synonym time = int
type_synonym duration = "64 word"
type_synonym go_int = "64 word"
type_synonym byte = "8 word"
type_synonym addr = nat

record ShareData =
  EncryptedPassword :: string
  ServiceName :: string
  Username :: string
  CreatedAt :: time
  ExpiresAt :: time
  Viewed :: bool
  ViewedAt :: "time option"

text \<open>
  The decoded JSON body of a create request. A field that is absent from the
  JSON object keeps Go's zero value: the empty string, or 0 for
  \<open>expiration_hours\<close>.
\<close>

record ShareRequest =
  req_EncryptedPassword :: string
  req_ServiceName :: string
  req_Username :: string
  req_ExpirationHours :: go_int

record ShareResponse =
  Token :: string
  ShareURL :: string
  resp_ExpiresAt :: time

record ShareRetrieveResponse =
  ret_EncryptedPassword :: string
  ret_ServiceName :: string
  ret_Username :: string
  ret_CreatedAt :: time
  ret_ViewedAt :: "time option"

text \<open>
  \<open>ShareStore.shares\<close> is a \<open>map[string]*ShareData\<close>: the map holds pointers, and
  a handler that has looked a token up keeps the pointer while \<open>MarkViewed\<close>
  writes through the map. The objects therefore live in an explicit heap (an
  address is an index into it; Go never frees an object that is still
  referenced, so the heap only grows), and the map is an association list from
  tokens to addresses. The mutex is not part of the state: every method of the
  store runs under it from start to end, so each method is one atomic state
  transformer.
\<close>

record world =
  heap :: "ShareData list"
  shares :: "(string \<times> addr) list"

definition wf_world :: "world \<Rightarrow> bool" where
  "wf_world w \<longleftrightarrow>
     distinct (map fst (shares w)) \<and> list_all (\<lambda>(t, p). p < length (heap w)) (shares w)"

definition alloc :: "ShareData \<Rightarrow> world \<Rightarrow> addr \<times> world" where
  "alloc d w = (length (heap w), w\<lparr>heap := heap w @ [d]\<rparr>)"

definition NewShareStore :: world where
  "NewShareStore = \<lparr>heap = [], shares = []\<rparr>"

definition Add :: "string \<Rightarrow> addr \<Rightarrow> world \<Rightarrow> world" where
  "Add token data w = w\<lparr>shares := AList.update token data (shares w)\<rparr>"

definition Get :: "string \<Rightarrow> world \<Rightarrow> addr option" where
  "Get token w = map_of (shares w) token"

definition MarkViewed :: "string \<Rightarrow> time \<Rightarrow> world \<Rightarrow> world" where
  "MarkViewed token now w =
     (case map_of (shares w) token of
        None \<Rightarrow> w
      | Some data \<Rightarrow>
          w\<lparr>heap := (heap w)[data := (heap w ! data)\<lparr>Viewed := True, ViewedAt := Some now\<rparr>]\<rparr>)"

definition Delete :: "string \<Rightarrow> world \<Rightarrow> world" where
  "Delete token w = w\<lparr>shares := AList.delete token (shares w)\<rparr>"

text \<open>\<open>Time.After\<close>: strictly later.\<close>

definition After :: "time \<Rightarrow> time \<Rightarrow> bool" where
  "After t u \<longleftrightarrow> u < t"

text \<open>
  The loop of \<open>CleanupExpired\<close> ranges over the entries of the map (in an order
  Go leaves open: here the order of the list) and deletes the current entry
  from the map when it has expired.
\<close>

fun cleanup_loop :: "time \<Rightarrow> ShareData list \<Rightarrow> (string \<times> addr) list \<Rightarrow>
    (string \<times> addr) list \<times> nat \<Rightarrow> (string \<times> addr) list \<times> nat" where
  "cleanup_loop now h [] (m, count) = (m, count)"
| "cleanup_loop now h ((token, data) # rest) (m, count) =
     (if After now (ExpiresAt (h ! data))
      then cleanup_loop now h rest (AList.delete token m, count + 1)
      else cleanup_loop now h rest (m, count))"

definition CleanupExpired :: "time \<Rightarrow> world \<Rightarrow> nat \<times> world" where
  "CleanupExpired now w =
     (let (m, count) = cleanup_loop now (heap w) (shares w) (shares w, 0)
      in (count, w\<lparr>shares := m\<rparr>))"

section \<open>Token generation (backend/handlers.go)\<close>

datatype error = EntropyFailure

text \<open>
  \<open>base64.URLEncoding.EncodeToString\<close> of Go's standard library: RFC 4648 with
  the URL-safe alphabet and \<open>=\<close> padding.
\<close>

definition encodeURL :: string where
  "encodeURL = ''ABCDEFGHIJKLMNOPQRSTUVWXYZabcdefghijklmnopqrstuvwxyz0123456789-_''"

fun EncodeToString :: "byte list \<Rightarrow> string" where
  "EncodeToString (a # b # c # rest) =
     (let v = unat a * 65536 + unat b * 256 + unat c
      in encodeURL ! (v div 262144) # encodeURL ! (v div 4096 mod 64) #
         encodeURL ! (v div 64 mod 64) # encodeURL ! (v mod 64) # EncodeToString rest)"
| "EncodeToString [a, b] =
     (let v = unat a * 65536 + unat b * 256
      in [encodeURL ! (v div 262144), encodeURL ! (v div 4096 mod 64),
          encodeURL ! (v div 64 mod 64), CHR ''=''])"
| "EncodeToString [a] =
     (let v = unat a * 65536
      in [encodeURL ! (v div 262144), encodeURL ! (v div 4096 mod 64), CHR ''='', CHR ''=''])"
| "EncodeToString [] = []"

text \<open>
  \<open>rand_Read n\<close> is the outcome of \<open>rand.Read\<close> on a buffer of \<open>n\<close> bytes: an
  error, or the bytes the buffer holds afterwards.
\<close>

definition generateSecureToken :: "(nat \<Rightarrow> error + byte list) \<Rightarrow> nat \<Rightarrow> error + string" where
  "generateSecureToken rand_Read len =
     (case rand_Read len of
        Inl err \<Rightarrow> Inl err
      | Inr bytes \<Rightarrow> Inr (EncodeToString bytes))"

section \<open>HTTP handlers (backend/handlers.go)\<close>

text \<open>
  What a handler leaves on the wire: a status code and a body. \<open>Text\<close> is the
  plain-text body of \<open>http.Error\<close>. Each handler ends with a log line that
  slices \<open>token[:10]\<close>, which panics on a token of fewer than ten bytes, after
  the store has been changed.
\<close>

datatype body =
    Text string
  | CreatedJSON ShareResponse
  | RetrieveJSON ShareRetrieveResponse
  | ErrorDetailsJSON string ShareRetrieveResponse
  | MessageJSON string

datatype outcome = Reply nat body | Panic

definition Hour :: duration where
  "Hour = 3600000000000"

definition time_Add :: "time \<Rightarrow> duration \<Rightarrow> time" where
  "time_Add t d = t + sint d"

definition TrimPrefix :: "string \<Rightarrow> string \<Rightarrow> string" where
  "TrimPrefix s pre =
     (if length pre \<le> length s \<and> take (length pre) s = pre then drop (length pre) s else s)"

text \<open>
  \<open>reqbody\<close> is the result of decoding the request body (\<open>None\<close>: the decoder
  returned an error) and \<open>now\<close> the reading of \<open>time.Now()\<close>.
\<close>

definition CreateShareHandler ::
  "string \<Rightarrow> string \<Rightarrow> ShareRequest option \<Rightarrow> (nat \<Rightarrow> error + byte list) \<Rightarrow> time \<Rightarrow>
   world \<Rightarrow> outcome \<times> world" where
  "CreateShareHandler baseURL method reqbody rand_Read now w =
     (if method \<noteq> ''POST'' then (Reply 405 (Text ''Method not allowed''), w)
      else case reqbody of
        None \<Rightarrow> (Reply 400 (Text ''Invalid request body''), w)
      | Some req \<Rightarrow>
          if req_EncryptedPassword req = [] \<or> req_ServiceName req = [] \<or> req_Username req = []
          then (Reply 400 (Text ''Missing required fields''), w)
          else
            let expirationHours =
                  (if req_ExpirationHours req \<le>s 0 then 24 else req_ExpirationHours req)
            in (case generateSecureToken rand_Read 32 of
                 Inl err \<Rightarrow> (Reply 500 (Text ''Internal server error''), w)
               | Inr token \<Rightarrow>
                   let shareData = \<lparr>EncryptedPassword = req_EncryptedPassword req,
                                    ServiceName = req_ServiceName req,
                                    Username = req_Username req,
                                    CreatedAt = now,
                                    ExpiresAt = time_Add now (expirationHours * Hour),
                                    Viewed = False,
                                    ViewedAt = None\<rparr>;
                       (p, w1) = alloc shareData w;
                       w2 = Add token p w1;
                       response = \<lparr>Token = token,
                                   ShareURL = baseURL @ ''/share/'' @ token,
                                   resp_ExpiresAt = ExpiresAt shareData\<rparr>
                   in if length token < 10 then (Panic, w2)
                      else (Reply 200 (CreatedJSON response), w2)))"

text \<open>
  \<open>now\<close> is the reading of \<open>time.Now()\<close> at the expiry check, \<open>vnow\<close> the one
  inside \<open>MarkViewed\<close>. The response is built after \<open>MarkViewed\<close> through the
  pointer that \<open>Get\<close> returned, so it reads the object as \<open>MarkViewed\<close> left it.
\<close>

definition GetShareHandler :: "string \<Rightarrow> string \<Rightarrow> time \<Rightarrow> time \<Rightarrow> world \<Rightarrow> outcome \<times> world" where
  "GetShareHandler method path now vnow w =
     (if method \<noteq> ''GET'' then (Reply 405 (Text ''Method not allowed''), w)
      else
        let token = TrimPrefix path ''/api/share/''
        in if token = [] then (Reply 400 (Text ''Token required''), w)
           else case Get token w of
             None \<Rightarrow> (Reply 404 (Text ''Share not found or expired''), w)
           | Some shareData \<Rightarrow>
               if After now (ExpiresAt (heap w ! shareData))
               then (Reply 410 (Text ''Share has expired''), Delete token w)
               else if Viewed (heap w ! shareData)
               then (Reply 410 (ErrorDetailsJSON ''This share has already been viewed''
                       \<lparr>ret_EncryptedPassword = [],
                        ret_ServiceName = ServiceName (heap w ! shareData),
                        ret_Username = Username (heap w ! shareData),
                        ret_CreatedAt = CreatedAt (heap w ! shareData),
                        ret_ViewedAt = ViewedAt (heap w ! shareData)\<rparr>), w)
               else
                 let w1 = MarkViewed token vnow w;
                     response = \<lparr>ret_EncryptedPassword = EncryptedPassword (heap w1 ! shareData),
                                 ret_ServiceName = ServiceName (heap w1 ! shareData),
                                 ret_Username = Username (heap w1 ! shareData),
                                 ret_CreatedAt = CreatedAt (heap w1 ! shareData),
                                 ret_ViewedAt = ViewedAt (heap w1 ! shareData)\<rparr>;
                     w2 = Delete token w1
                 in if length token < 10 then (Panic, w2)
                    else (Reply 200 (RetrieveJSON response), w2))"

definition DeleteShareHandler :: "string \<Rightarrow> string \<Rightarrow> world \<Rightarrow> outcome \<times> world" where
  "DeleteShareHandler method path w =
     (if method \<noteq> ''DELETE'' then (Reply 405 (Text ''Method not allowed''), w)
      else
        let token = TrimPrefix path ''/api/share/''
        in if token = [] then (Reply 400 (Text ''Token required''), w)
           else case Get token w of
             None \<Rightarrow> (Reply 404 (Text ''Share not found''), w)
           | Some _ \<Rightarrow>
               let w1 = Delete token w
               in if length token < 10 then (Panic, w1)
                  else (Reply 200 (MessageJSON ''Share deleted successfully''), w1))"

section \<open>Concurrent requests\<close>

text \<open>
  The HTTP server runs every request in its own goroutine, and \<open>GetShareHandler\<close>
  takes the lock once per call of a store method, not once per request. A
  request is therefore a sequence of atomic steps, between any two of which
  another request may run: \<open>Get\<close>; the expiry check through the pointer; the
  \<open>Delete\<close> of an expired share; the check of \<open>Viewed\<close> through the pointer;
  \<open>MarkViewed\<close>; building the response through the pointer; the final \<open>Delete\<close>.
  \<open>get_step\<close> is one such step of a request for \<open>token\<close>, at clock reading \<open>now\<close>.
\<close>

datatype get_pc =
    AtGet
  | AtExpiry addr
  | AtDeleteExpired
  | AtViewedCheck addr
  | AtMarkViewed addr
  | AtBuild addr
  | AtDelete ShareRetrieveResponse
  | Done outcome

fun get_step :: "string \<Rightarrow> time \<Rightarrow> get_pc \<Rightarrow> world \<Rightarrow> get_pc \<times> world" where
  "get_step token now AtGet w =
     (case Get token w of
        None \<Rightarrow> (Done (Reply 404 (Text ''Share not found or expired'')), w)
      | Some shareData \<Rightarrow> (AtExpiry shareData, w))"
| "get_step token now (AtExpiry shareData) w =
     (if After now (ExpiresAt (heap w ! shareData)) then (AtDeleteExpired, w)
      else (AtViewedCheck shareData, w))"
| "get_step token now AtDeleteExpired w =
     (Done (Reply 410 (Text ''Share has expired'')), Delete token w)"
| "get_step token now (AtViewedCheck shareData) w =
     (if Viewed (heap w ! shareData)
      then (Done (Reply 410 (ErrorDetailsJSON ''This share has already been viewed''
              \<lparr>ret_EncryptedPassword = [],
               ret_ServiceName = ServiceName (heap w ! shareData),
               ret_Username = Username (heap w ! shareData),
               ret_CreatedAt = CreatedAt (heap w ! shareData),
               ret_ViewedAt = ViewedAt (heap w ! shareData)\<rparr>)), w)
      else (AtMarkViewed shareData, w))"
| "get_step token now (AtMarkViewed shareData) w =
     (AtBuild shareData, MarkViewed token now w)"
| "get_step token now (AtBuild shareData) w =
     (AtDelete \<lparr>ret_EncryptedPassword = EncryptedPassword (heap w ! shareData),
                ret_ServiceName = ServiceName (heap w ! shareData),
                ret_Username = Username (heap w ! shareData),
                ret_CreatedAt = CreatedAt (heap w ! shareData),
                ret_ViewedAt = ViewedAt (heap w ! shareData)\<rparr>, w)"
| "get_step token now (AtDelete response) w =
     (Done (if length token < 10 then Panic else Reply 200 (RetrieveJSON response)),
      Delete token w)"
| "get_step token now (Done r) w = (Done r, w)"

text \<open>
  A schedule is the list of the steps taken, each naming the request that
  moves and the clock reading at that moment; \<open>run\<close> executes it on the
  requests in flight (each a token and its program point).
\<close>

fun run :: "(nat \<times> time) list \<Rightarrow> (string \<times> get_pc) list \<Rightarrow> world \<Rightarrow>
    (string \<times> get_pc) list \<times> world" where
  "run [] reqs w = (reqs, w)"
| "run ((i, now) # sched) reqs w =
     (if i < length reqs
      then let (pc', w') = get_step (fst (reqs ! i)) now (snd (reqs ! i)) w
           in run sched (reqs[i := (fst (reqs ! i), pc')]) w'
      else run sched reqs w)"

section \<open>Example data\<close>

text \<open>The path of a request for \<open>/api/share/:token\<close>.\<close>

definition api_share :: "string \<Rightarrow> string" where
  "api_share token = ''/api/share/'' @ token"

definition zero_entropy :: "nat \<Rightarrow> error + byte list" where
  "zero_entropy n = Inr (replicate n 0)"

definition token0 :: string where
  "token0 = ''AAAAAAAAAAAAAAAAAAAAAAAAAAAAAAAAAAAAAAAAAAA=''"

definition gmail_request :: "go_int \<Rightarrow> ShareRequest" where
  "gmail_request h = \<lparr>req_EncryptedPassword = ''c2VjcmV0'', req_ServiceName = ''Gmail'',
                      req_Username = ''a@b.com'', req_ExpirationHours = h\<rparr>"

definition gmail_share :: "bool \<Rightarrow> ShareData" where
  "gmail_share v = \<lparr>EncryptedPassword = ''c2VjcmV0'', ServiceName = ''Gmail'',
                    Username = ''a@b.com'', CreatedAt = 1000, ExpiresAt = 5000,
                    Viewed = v, ViewedAt = (if v then Some 2000 else None)\<rparr>"

definition world0 :: "bool \<Rightarrow> world" where
  "world0 v = \<lparr>heap = [gmail_share v], shares = [(token0, 0)]\<rparr>"

section \<open>Basic facts about the store and the handlers\<close>

lemma length_EncodeToString: "length (EncodeToString bs) = 4 * ((length bs + 2) div 3)"
proof (induction bs rule: EncodeToString.induct)
  case (1 a b c rest)
  have e: "length (EncodeToString (a # b # c # rest)) = 4 + length (EncodeToString rest)"
    by (simp add: Let_def)
  have l: "length (a # b # c # rest) = length rest + 3" by simp
  show ?case using "1.IH" unfolding e l by presburger
next
  case (2 a b) show ?case by (simp add: Let_def)
next
  case (3 a) show ?case by (simp add: Let_def)
next
  case 4 show ?case by simp
qed

lemma replicate_32:
  "replicate 32 x = [x, x, x, x, x, x, x, x, x, x, x, x, x, x, x, x,
                     x, x, x, x, x, x, x, x, x, x, x, x, x, x, x, x]"
  by (simp add: eval_nat_numeral)

lemma EncodeToString_zero: "EncodeToString (replicate 32 0) = token0"
  unfolding replicate_32 by (simp add: token0_def encodeURL_def)

lemma TrimPrefix_append: "TrimPrefix (pre @ s) pre = s"
  by (simp add: TrimPrefix_def)

lemma Get_Add: "Get t (Add t' p w) = (if t = t' then Some p else Get t w)"
  by (simp add: Get_def Add_def update_conv')

lemma Get_Delete: "Get t (Delete t' w) = (if t = t' then None else Get t w)"
  by (simp add: Get_def Delete_def delete_conv')

lemma Delete_notin: "token \<notin> fst ` set (shares (Delete token w))"
  by (simp add: Delete_def delete_notin_dom)

lemma Get_MarkViewed: "Get t (MarkViewed t' now w) = Get t w"
  by (simp add: Get_def MarkViewed_def split: option.splits)

lemma heap_MarkViewed:
  assumes "Get token w = Some p" "p < length (heap w)"
  shows "heap (MarkViewed token vnow w) ! p = (heap w ! p)\<lparr>Viewed := True, ViewedAt := Some vnow\<rparr>"
  using assms by (simp add: MarkViewed_def Get_def)

lemma wf_world_in_range:
  assumes "wf_world w" "Get token w = Some p"
  shows "p < length (heap w)"
proof -
  from assms(2) have "(token, p) \<in> set (shares w)"
    by (simp add: Get_def map_of_SomeD)
  with assms(1) show ?thesis
    by (auto simp: wf_world_def list_all_iff)
qed

text \<open>The handlers on a well-formed request, with the routing checks passed.\<close>

lemma GetShareHandler_unfold:
  assumes "token \<noteq> []"
  shows "GetShareHandler ''GET'' (api_share token) now vnow w =
     (case Get token w of
        None \<Rightarrow> (Reply 404 (Text ''Share not found or expired''), w)
      | Some p \<Rightarrow>
          if ExpiresAt (heap w ! p) < now
          then (Reply 410 (Text ''Share has expired''), Delete token w)
          else if Viewed (heap w ! p)
          then (Reply 410 (ErrorDetailsJSON ''This share has already been viewed''
                  \<lparr>ret_EncryptedPassword = [],
                   ret_ServiceName = ServiceName (heap w ! p),
                   ret_Username = Username (heap w ! p),
                   ret_CreatedAt = CreatedAt (heap w ! p),
                   ret_ViewedAt = ViewedAt (heap w ! p)\<rparr>), w)
          else (if length token < 10 then Panic
                else Reply 200 (RetrieveJSON
                  \<lparr>ret_EncryptedPassword = EncryptedPassword (heap (MarkViewed token vnow w) ! p),
                   ret_ServiceName = ServiceName (heap (MarkViewed token vnow w) ! p),
                   ret_Username = Username (heap (MarkViewed token vnow w) ! p),
                   ret_CreatedAt = CreatedAt (heap (MarkViewed token vnow w) ! p),
                   ret_ViewedAt = ViewedAt (heap (MarkViewed token vnow w) ! p)\<rparr>),
                Delete token (MarkViewed token vnow w)))"
proof -
  have "TrimPrefix (api_share token) ''/api/share/'' = token"
    unfolding api_share_def by (rule TrimPrefix_append)
  then show ?thesis
    using assms by (simp add: GetShareHandler_def Let_def After_def split: option.splits)
qed

lemma DeleteShareHandler_unfold:
  assumes "token \<noteq> []"
  shows "DeleteShareHandler ''DELETE'' (api_share token) w =
     (case Get token w of
        None \<Rightarrow> (Reply 404 (Text ''Share not found''), w)
      | Some p \<Rightarrow>
          (if length token < 10 then Panic
           else Reply 200 (MessageJSON ''Share deleted successfully''), Delete token w))"
proof -
  have "TrimPrefix (api_share token) ''/api/share/'' = token"
    unfolding api_share_def by (rule TrimPrefix_append)
  then show ?thesis
    using assms by (simp add: DeleteShareHandler_def Let_def split: option.splits)
qed

lemma world0_facts:
  "wf_world (world0 v)" "10 \<le> length token0" "Get token0 (world0 v) = Some 0"
  "heap (world0 v) ! 0 = gmail_share v" "token0 \<noteq> []"
  by (simp_all add: wf_world_def world0_def token0_def Get_def)

section \<open>Redeeming a live share\<close>

text \<open>
  Claim C4. When the record under a handle is in the store, has not been viewed
  and its deadline has not passed, a redeem answers 200 with the payload
  fields of the record and, in the same call, removes the record: afterwards
  the store has no entry for the handle. (The handle is one that create can
  mint: the handler's log line needs ten bytes of it.)
\<close>

theorem redeem_active_returns_payload_and_removes:
  assumes "wf_world w" and "10 \<le> length token" and "Get token w = Some p"
      and "\<not> ExpiresAt (heap w ! p) < now" and "\<not> Viewed (heap w ! p)"
  shows "GetShareHandler ''GET'' (api_share token) now vnow w =
           (Reply 200 (RetrieveJSON
              \<lparr>ret_EncryptedPassword = EncryptedPassword (heap w ! p),
               ret_ServiceName = ServiceName (heap w ! p),
               ret_Username = Username (heap w ! p),
               ret_CreatedAt = CreatedAt (heap w ! p),
               ret_ViewedAt = Some vnow\<rparr>),
            Delete token (MarkViewed token vnow w))
         \<and> Get token (Delete token (MarkViewed token vnow w)) = None
         \<and> token \<notin> fst ` set (shares (Delete token (MarkViewed token vnow w)))"
proof -
  from assms(2) have ne: "token \<noteq> []" by auto
  have r: "p < length (heap w)" using assms(1,3) by (rule wf_world_in_range)
  have h: "heap (MarkViewed token vnow w) ! p = (heap w ! p)\<lparr>Viewed := True, ViewedAt := Some vnow\<rparr>"
    using assms(3) r by (rule heap_MarkViewed)
  show ?thesis
    unfolding GetShareHandler_unfold [OF ne]
    using assms(2-5) by (simp add: h Get_Delete Delete_notin)
qed

theorem redeem_active_returns_payload_and_removes_witness:
  "wf_world (world0 False) \<and> 10 \<le> length token0 \<and> Get token0 (world0 False) = Some 0
   \<and> \<not> ExpiresAt (heap (world0 False) ! 0) < 1500 \<and> \<not> Viewed (heap (world0 False) ! 0)
   \<and> GetShareHandler ''GET'' (api_share token0) 1500 1600 (world0 False) =
       (Reply 200 (RetrieveJSON
          \<lparr>ret_EncryptedPassword = ''c2VjcmV0'', ret_ServiceName = ''Gmail'',
           ret_Username = ''a@b.com'', ret_CreatedAt = 1000, ret_ViewedAt = Some 1600\<rparr>),
        \<lparr>heap = [(gmail_share False)\<lparr>Viewed := True, ViewedAt := Some 1600\<rparr>], shares = []\<rparr>)
   \<and> Get token0 (snd (GetShareHandler ''GET'' (api_share token0) 1500 1600 (world0 False))) = None"
proof -
  have a: "\<not> ExpiresAt (heap (world0 False) ! 0) < 1500" "\<not> Viewed (heap (world0 False) ! 0)"
    by (simp_all add: world0_def gmail_share_def)
  have b: "Delete token0 (MarkViewed token0 1600 (world0 False)) =
      \<lparr>heap = [(gmail_share False)\<lparr>Viewed := True, ViewedAt := Some 1600\<rparr>], shares = []\<rparr>"
    by (simp add: Delete_def MarkViewed_def world0_def)
  show ?thesis
    using redeem_active_returns_payload_and_removes [OF world0_facts(1-3) a, of 1600] a
      world0_facts(2) world0_facts(1,3,4) [of False]
    by (simp add: b gmail_share_def)
qed

section \<open>Redeeming an expired share\<close>

text \<open>
  Claim C5. When the record under a handle is in the store and its deadline
  has passed at the time of the call, redeem answers 410 ``Share has expired''
  with no payload and deletes the record, whether or not the record was ever
  viewed (nothing is assumed about \<open>Viewed\<close>).
\<close>

theorem redeem_expired_returns_gone_and_removes:
  assumes "token \<noteq> []" and "Get token w = Some p" and "ExpiresAt (heap w ! p) < now"
  shows "GetShareHandler ''GET'' (api_share token) now vnow w =
           (Reply 410 (Text ''Share has expired''), Delete token w)
         \<and> Get token (Delete token w) = None
         \<and> token \<notin> fst ` set (shares (Delete token w))"
  unfolding GetShareHandler_unfold [OF assms(1)]
  using assms(2,3) by (simp add: Get_Delete Delete_notin)

theorem redeem_expired_returns_gone_and_removes_witness:
  "token0 \<noteq> [] \<and> Get token0 (world0 False) = Some 0
   \<and> ExpiresAt (heap (world0 False) ! 0) < 5001
   \<and> GetShareHandler ''GET'' (api_share token0) 5001 5002 (world0 False) =
       (Reply 410 (Text ''Share has expired''), \<lparr>heap = [gmail_share False], shares = []\<rparr>)
   \<and> Get token0 \<lparr>heap = [gmail_share False], shares = []\<rparr> = None"
proof -
  have a: "ExpiresAt (heap (world0 False) ! 0) < 5001"
    by (simp add: world0_def gmail_share_def)
  have b: "Delete token0 (world0 False) = \<lparr>heap = [gmail_share False], shares = []\<rparr>"
    by (simp add: Delete_def world0_def)
  show ?thesis
    using redeem_expired_returns_gone_and_removes [OF world0_facts(5) world0_facts(3) a, of 5002]
      a world0_facts(5) world0_facts(3) [of False]
    by (simp add: b)
qed

end
